theory Spec2Isabelle
  imports Main
begin

section \<open>JavaScript values as the two servers see them\<close>

text \<open>
  Everything the handlers receive (the argument bag of a tool call) and everything
  the upstream sends back (\<open>response.data\<close>, \<open>response.json()\<close>) is parsed JSON.
  A JavaScript number is kept as the text \<open>Number.prototype.toString\<close> gives for
  it (for instance \<open>''5''\<close>, \<open>''1.5''\<close>, \<open>''NaN''\<close>): the servers never compute with
  numbers, they only render them. \<open>undefined\<close> is not a JSON value; a value that
  may be \<open>undefined\<close> has type \<open>json option\<close> and \<open>None\<close> is \<open>undefined\<close>.
  Strings are byte strings. An object is the list of the members that built it,
  in the order of the JSON text: a key that comes again keeps its place and
  takes the later value.
\<close>

datatype json =
    JNull
  | JBool bool
  | JNum string
  | JStr string
  | JArr "json list"
  | JObj "(string \<times> json) list"

text \<open>\<open>typeof v\<close>.\<close>

fun typeof :: "json option \<Rightarrow> string" where
  "typeof None = ''undefined''"
| "typeof (Some JNull) = ''object''"
| "typeof (Some (JBool b)) = ''boolean''"
| "typeof (Some (JNum n)) = ''number''"
| "typeof (Some (JStr s)) = ''string''"
| "typeof (Some (JArr xs)) = ''object''"
| "typeof (Some (JObj kvs)) = ''object''"

text \<open>
  \<open>k in v\<close> for a value \<open>v\<close> of type object, and the property read \<open>v?.k\<close>, for
  the keys the servers use (none of them is an array index or a property of a
  built-in prototype, so only an object's own properties count). The value of
  a key is the one its last member gives.
\<close>

fun has_key :: "string \<Rightarrow> json \<Rightarrow> bool" where
  "has_key k (JObj kvs) = (k \<in> set (map fst kvs))"
| "has_key k v = False"

fun get_prop :: "json option \<Rightarrow> string \<Rightarrow> json option" where
  "get_prop (Some (JObj kvs)) k = map_of (rev kvs) k"
| "get_prop v k = None"

text \<open>
  \<open>String(v)\<close>, which can throw: the result is \<open>None\<close> when it throws a
  \<open>TypeError\<close>. An object is converted by its \<open>toString\<close> method. A parsed object
  with no own property \<open>toString\<close> inherits the method that answers
  \<open>[object Object]\<close>; with an own property \<open>toString\<close>, which is never a function,
  no method gives a primitive value and the conversion throws. An array is
  joined with commas (\<open>Array.prototype.join\<close>): \<open>null\<close> elements give the empty
  string, every other element is converted in turn, and the conversion of the
  array throws when that of an element does.
\<close>

fun ToString :: "json \<Rightarrow> string option"
  and join_elements :: "json list \<Rightarrow> string option"
where
  "ToString JNull = Some ''null''"
| "ToString (JBool b) = Some (if b then ''true'' else ''false'')"
| "ToString (JNum n) = Some n"
| "ToString (JStr s) = Some s"
| "ToString (JArr xs) = join_elements xs"
| "ToString (JObj kvs) =
     (if ''toString'' \<in> set (map fst kvs) then None else Some ''[object Object]'')"
| "join_elements [] = Some []"
| "join_elements (x # xs) =
     (case (if x = JNull then Some [] else ToString x) of
        None \<Rightarrow> None
      | Some s \<Rightarrow>
          (case join_elements xs of
             None \<Rightarrow> None
           | Some r \<Rightarrow> Some (s @ (if xs = [] then [] else '','' @ r))))"

definition String_js :: "json option \<Rightarrow> string option" where
  "String_js v = (case v of None \<Rightarrow> Some ''undefined'' | Some x \<Rightarrow> ToString x)"

subsection \<open>The order of the properties of an object\<close>

text \<open>
  An array index is the decimal text, without leading zeros, of a number below
  \<open>2^32 - 1\<close>. The own properties of an object are enumerated with the array
  indices first, in ascending order, then the other keys in the order they were
  first given; each key comes once, with its last value.
\<close>

definition index_value :: "string \<Rightarrow> int" where
  "index_value s = foldl (\<lambda>n c. 10 * n + (of_char c - 48)) 0 s"

definition is_array_index :: "string \<Rightarrow> bool" where
  "is_array_index s =
     (s \<noteq> [] \<and> list_all (\<lambda>c. 48 \<le> (of_char c :: nat) \<and> (of_char c :: nat) \<le> 57) s
      \<and> (s = ''0'' \<or> hd s \<noteq> CHR ''0'') \<and> index_value s < 4294967295)"

definition own_properties :: "(string \<times> 'a) list \<Rightarrow> (string \<times> 'a) list" where
  "own_properties kvs =
     (let ks = rev (remdups (rev (map fst kvs)));
          ordered = sort_key index_value (filter is_array_index ks)
                    @ filter (\<lambda>k. \<not> is_array_index k) ks
      in concat (map (\<lambda>k. case map_of (rev kvs) k of None \<Rightarrow> [] | Some v \<Rightarrow> [(k, v)])
                   ordered))"

subsection \<open>\<open>JSON.stringify\<close>\<close>

definition hex_digit :: "nat \<Rightarrow> char" where
  "hex_digit n = ''0123456789abcdef'' ! (n mod 16)"

text \<open>\<open>QuoteJSONString\<close>: the two-character escapes, \<open>\u00XX\<close> for the other control
  characters, every other character as it is.\<close>

definition quote_char :: "char \<Rightarrow> string" where
  "quote_char c =
     (if c = CHR 0x08 then [CHR 0x5C, CHR ''b'']
      else if c = CHR 0x09 then [CHR 0x5C, CHR ''t'']
      else if c = CHR 0x0A then [CHR 0x5C, CHR ''n'']
      else if c = CHR 0x0C then [CHR 0x5C, CHR ''f'']
      else if c = CHR 0x0D then [CHR 0x5C, CHR ''r'']
      else if c = CHR 0x22 then [CHR 0x5C, CHR 0x22]
      else if c = CHR 0x5C then [CHR 0x5C, CHR 0x5C]
      else if (of_char c :: nat) < 32
        then [CHR 0x5C, CHR ''u'', CHR ''0'', CHR ''0'',
              hex_digit (of_char c div 16), hex_digit (of_char c)]
      else [c])"

definition QuoteJSONString :: "string \<Rightarrow> string" where
  "QuoteJSONString s = [CHR 0x22] @ concat (map quote_char s) @ [CHR 0x22]"

text \<open>Joining the serialized members with a separator.\<close>

fun join_with :: "string \<Rightarrow> string list \<Rightarrow> string" where
  "join_with sep [] = []"
| "join_with sep [x] = x"
| "join_with sep (x # y # ys) = x @ sep @ join_with sep (y # ys)"

definition wrap :: "string \<Rightarrow> string \<Rightarrow> string \<Rightarrow> string \<Rightarrow> string list \<Rightarrow> string" where
  "wrap opn cls gap stepback partial =
     (if partial = [] then opn @ cls
      else if gap = [] then opn @ join_with '','' partial @ cls
      else opn @ [CHR 0x0A] @ (stepback @ gap)
           @ join_with ('','' @ [CHR 0x0A] @ (stepback @ gap)) partial
           @ [CHR 0x0A] @ stepback @ cls)"

text \<open>A member of an object, from its key and the text of its value.\<close>

definition member_text :: "string \<Rightarrow> string \<times> string \<Rightarrow> string" where
  "member_text gap kv =
     QuoteJSONString (fst kv) @ (if gap = [] then '':'' else '': '') @ snd kv"

text \<open>
  \<open>SerializeJSONProperty\<close>, \<open>SerializeJSONArray\<close> and \<open>SerializeJSONObject\<close> with the
  gap string \<open>gap\<close> and the current indentation \<open>ind\<close>. A number that is not
  finite is written \<open>null\<close>. The members of an object are written in the order
  its properties are enumerated. No parsed value has a callable \<open>toJSON\<close>.
\<close>

fun serialize :: "string \<Rightarrow> string \<Rightarrow> json \<Rightarrow> string"
  and serialize_elements :: "string \<Rightarrow> string \<Rightarrow> json list \<Rightarrow> string list"
  and serialize_members :: "string \<Rightarrow> string \<Rightarrow> (string \<times> json) list \<Rightarrow> (string \<times> string) list"
where
  "serialize gap ind JNull = ''null''"
| "serialize gap ind (JBool b) = (if b then ''true'' else ''false'')"
| "serialize gap ind (JNum n) =
     (if n = ''NaN'' \<or> n = ''Infinity'' \<or> n = ''-Infinity'' then ''null'' else n)"
| "serialize gap ind (JStr s) = QuoteJSONString s"
| "serialize gap ind (JArr xs) =
     wrap ''['' '']'' gap ind (serialize_elements gap (ind @ gap) xs)"
| "serialize gap ind (JObj kvs) =
     wrap ''{'' ''}'' gap ind
       (map (member_text gap) (own_properties (serialize_members gap (ind @ gap) kvs)))"
| "serialize_elements gap ind [] = []"
| "serialize_elements gap ind (x # xs) =
     serialize gap ind x # serialize_elements gap ind xs"
| "serialize_members gap ind [] = []"
| "serialize_members gap ind (kv # kvs) =
     (fst kv, serialize gap ind (snd kv)) # serialize_members gap ind kvs"

text \<open>\<open>JSON.stringify(v, null, space)\<close> for a number \<open>space\<close>; \<open>JSON.stringify(v)\<close>
  is \<open>JSON_stringify v 0\<close>.\<close>

definition JSON_stringify :: "json \<Rightarrow> nat \<Rightarrow> string" where
  "JSON_stringify v space = serialize (replicate (min 10 space) CHR '' '') [] v"

section \<open>The tool catalogs\<close>

record property_schema =
  prop_type :: string
  prop_description :: string
  prop_enum :: "string list option"

record input_schema =
  schema_type :: string
  properties :: "(string \<times> property_schema) list"
  required :: "string list"

record tool =
  name :: string
  description :: string
  inputSchema :: input_schema

definition param :: "string \<Rightarrow> string \<Rightarrow> property_schema" where
  "param t d = \<lparr>prop_type = t, prop_description = d, prop_enum = None\<rparr>"

definition param_enum :: "string \<Rightarrow> string \<Rightarrow> string list \<Rightarrow> property_schema" where
  "param_enum t d e = \<lparr>prop_type = t, prop_description = d, prop_enum = Some e\<rparr>"

definition mk_tool :: "string \<Rightarrow> string \<Rightarrow> (string \<times> property_schema) list \<Rightarrow> string list \<Rightarrow> tool" where
  "mk_tool n d ps r =
     \<lparr>name = n, description = d,
      inputSchema = \<lparr>schema_type = ''object'', properties = ps, required = r\<rparr>\<rparr>"

text \<open>The \<open>ListToolsRequestSchema\<close> handler of the coordinate server
  (\<open>amap-coordinate-server/src/index.ts\<close>). It takes no argument and reads no state.\<close>

definition coordinate_listTools :: "tool list" where
  "coordinate_listTools =
   [mk_tool ''coordinate_convert'' ''Convert coordinates using AMap API''
      [(''locations'', param ''string''
          ''Coordinates to convert (longitude,latitude|longitude,latitude)''),
       (''coordsys'', param_enum ''string''
          ''Original coordinate system (gps, mapbar, baidu, autonavi)''
          [''gps'', ''mapbar'', ''baidu'', ''autonavi'']),
       (''output'', param_enum ''string'' ''Output format (JSON, XML)''
          [''JSON'', ''XML''])]
      [''locations''],
    mk_tool ''keyword_search'' ''Search for places by keyword using AMap API''
      [(''keywords'', param ''string'' ''Keywords for the search''),
       (''types'', param ''string'' ''POI types''),
       (''city'', param ''string'' ''City to search in''),
       (''citylimit'', param ''boolean'' ''Limit results to the specified city''),
       (''children'', param ''number'' ''Whether to show child POIs''),
       (''offset'', param ''number'' ''Number of results per page''),
       (''page'', param ''number'' ''Page number''),
       (''extensions'', param ''string'' ''Return extensions'')]
      [''keywords''],
    mk_tool ''around_search'' ''Search for places around a location using AMap API''
      [(''location'', param ''string'' ''Location to search around (longitude,latitude)''),
       (''keywords'', param ''string'' ''Keywords for the search''),
       (''types'', param ''string'' ''POI types''),
       (''city'', param ''string'' ''City to search in''),
       (''radius'', param ''number'' ''Search radius''),
       (''sortrule'', param ''string'' ''Sort rule''),
       (''offset'', param ''number'' ''Number of results per page''),
       (''page'', param ''number'' ''Page number''),
       (''extensions'', param ''string'' ''Return extensions'')]
      [''location''],
    mk_tool ''polygon_search'' ''Search for places within a polygon using AMap API''
      [(''polygon'', param ''string''
          ''Polygon to search within (longitude,latitude|longitude,latitude|...)''),
       (''keywords'', param ''string'' ''Keywords for the search''),
       (''types'', param ''string'' ''POI types''),
       (''offset'', param ''number'' ''Number of results per page''),
       (''page'', param ''number'' ''Page number''),
       (''extensions'', param ''string'' ''Return extensions'')]
      [''polygon''],
    mk_tool ''id_search'' ''Search for a place by ID using AMap API''
      [(''id'', param ''string'' ''ID of the place to search for'')]
      [''id''],
    mk_tool ''aoi_boundary_query'' ''Query AOI boundary using AMap API''
      [(''id'', param ''string'' ''ID of the AOI to query'')]
      [''id'']]"

text \<open>The \<open>ListToolsRequestSchema\<close> handler of the route server.\<close>

definition route_listTools :: "tool list" where
  "route_listTools =
   [mk_tool ''walking_route'' ''Get walking route''
      [(''origin'', param ''string'' ''Origin longitude and latitude''),
       (''destination'', param ''string'' ''Destination longitude and latitude'')]
      [''origin'', ''destination''],
    mk_tool ''transit_route'' ''Get transit route''
      [(''origin'', param ''string'' ''Origin longitude and latitude''),
       (''destination'', param ''string'' ''Destination longitude and latitude''),
       (''city'', param ''string'' ''City name'')]
      [''origin'', ''destination'', ''city''],
    mk_tool ''driving_route'' ''Get driving route''
      [(''origin'', param ''string'' ''Origin longitude and latitude''),
       (''destination'', param ''string'' ''Destination longitude and latitude'')]
      [''origin'', ''destination''],
    mk_tool ''bicycling_route'' ''Get bicycling route''
      [(''origin'', param ''string'' ''Origin longitude and latitude''),
       (''destination'', param ''string'' ''Destination longitude and latitude'')]
      [''origin'', ''destination''],
    mk_tool ''distance'' ''Get distance between two points''
      [(''origins'', param ''string'' ''Origin longitude and latitude, separated by |''),
       (''destination'', param ''string'' ''Destination longitude and latitude'')]
      [''origins'', ''destination'']]"

section \<open>The upstream, errors and responses\<close>

text \<open>
  The upstream answers a request with an HTTP response, which has a status and a
  body that is JSON text or is not, or it does not answer (connection refused,
  name not resolved, ...), which the client reports with a message. Every call
  a handler makes is recorded, in order, in the list of requests it returns.
\<close>

datatype request =
    AxiosGet string "(string \<times> json option) list"
  | Fetch string

datatype body = Json json | NotJson string

datatype http = NetworkError string | Response nat body

type_synonym upstream = "request \<Rightarrow> http"

text \<open>A promise settles by resolving with a value or by rejecting with an error, of
  which the handlers read only \<open>message\<close>.\<close>

datatype 'a promise = Resolved 'a | Rejected string

text \<open>The decimal text of a status.\<close>

fun decimal :: "nat \<Rightarrow> string" where
  "decimal n =
     (if n < 10 then [hex_digit n] else decimal (n div 10) @ [hex_digit (n mod 10)])"

text \<open>
  \<open>axios.get(url, {params})\<close> with the defaults of the library, which the server
  does not change: a response whose status is not in \<open>200..299\<close> rejects with
  the message \<open>Request failed with status code <status>\<close>; otherwise the promise
  resolves and \<open>response.data\<close> is the parsed body, or the body as a string when
  it is not JSON.
\<close>

definition axios_get :: "upstream \<Rightarrow> string \<Rightarrow> (string \<times> json option) list \<Rightarrow> json promise" where
  "axios_get up url params =
     (case up (AxiosGet url params) of
        NetworkError message \<Rightarrow> Rejected message
      | Response status b \<Rightarrow>
          if 200 \<le> status \<and> status < 300
          then Resolved (case b of Json data \<Rightarrow> data | NotJson s \<Rightarrow> JStr s)
          else Rejected (''Request failed with status code '' @ decimal status))"

text \<open>\<open>fetch(url)\<close> resolves with the response whatever its status; it rejects only
  when the upstream does not answer.\<close>

definition fetch :: "upstream \<Rightarrow> string \<Rightarrow> body promise" where
  "fetch up url =
     (case up (Fetch url) of
        NetworkError message \<Rightarrow> Rejected message
      | Response status b \<Rightarrow> Resolved b)"

datatype ErrorCode = InvalidParams | MethodNotFound

text \<open>
  What a handler can throw: \<open>new McpError(code, message)\<close>, \<open>new Error(message)\<close>,
  the error of a rejected promise that it awaited outside any \<open>try\<close>, the error
  with which \<open>response.json()\<close> rejects on a body that is not JSON (kept with
  that body), and the \<open>TypeError\<close> of a \<open>String(v)\<close> that throws.
\<close>

datatype thrown =
    McpError ErrorCode string
  | Error string
  | Rejection string
  | InvalidJson string
  | TypeError

record content_item =
  item_type :: string
  item_text :: string

text \<open>\<open>isError\<close> is \<open>None\<close> when the returned object has no such field.\<close>

record tool_response =
  content :: "content_item list"
  isError :: "bool option"

datatype completion = Return tool_response | Throw thrown

type_synonym run = "request list \<times> completion"

section \<open>The coordinate server\<close>

definition isValidSearchArgs :: "json option \<Rightarrow> bool" where
  "isValidSearchArgs args =
     (case args of
        None \<Rightarrow> False
      | Some a \<Rightarrow>
          if typeof args \<noteq> ''object'' \<or> a = JNull then False
          else if has_key ''locations'' a then
            typeof (get_prop args ''locations'') = ''string'' \<and>
            (get_prop args ''coordsys'' = None \<or> typeof (get_prop args ''coordsys'') = ''string'') \<and>
            (get_prop args ''output'' = None \<or> typeof (get_prop args ''output'') = ''string'')
          else if has_key ''keywords'' a then typeof (get_prop args ''keywords'') = ''string''
          else if has_key ''location'' a then typeof (get_prop args ''location'') = ''string''
          else if has_key ''polygon'' a then typeof (get_prop args ''polygon'') = ''string''
          else if has_key ''id'' a then typeof (get_prop args ''id'') = ''string''
          else False)"

text \<open>The \<open>try { axios.get ... return ... } catch (error) { ... }\<close> block that every
  branch of the coordinate server's switch ends with. The \<open>console.error\<close> of the
  \<open>catch\<close> only logs and is left out.\<close>

definition axios_try :: "upstream \<Rightarrow> string \<Rightarrow> (string \<times> json option) list \<Rightarrow> run" where
  "axios_try up url params =
     ([AxiosGet url params],
      case axios_get up url params of
        Resolved data \<Rightarrow>
          Return \<lparr>content = [\<lparr>item_type = ''text'', item_text = JSON_stringify data 2\<rparr>],
                  isError = None\<rparr>
      | Rejected message \<Rightarrow>
          Return \<lparr>content = [\<lparr>item_type = ''text'',
                               item_text = ''AMap API error: '' @ message\<rparr>],
                  isError = Some True\<rparr>)"

definition invalid_arguments :: run where
  "invalid_arguments = ([], Throw (McpError InvalidParams ''Invalid arguments''))"

text \<open>The \<open>CallToolRequestSchema\<close> handler of the coordinate server, for the value
  \<open>API_KEY\<close> the module holds.\<close>

definition coordinate_callTool :: "string \<Rightarrow> upstream \<Rightarrow> string \<Rightarrow> json option \<Rightarrow> run" where
  "coordinate_callTool API_KEY up nm args =
     (if nm = ''coordinate_convert'' then
        if \<not> isValidSearchArgs args then invalid_arguments
        else axios_try up ''https://restapi.amap.com/v3/assistant/coordinate/convert''
          [(''locations'', get_prop args ''locations''),
           (''coordsys'', get_prop args ''coordsys''),
           (''output'', get_prop args ''output''),
           (''key'', Some (JStr API_KEY))]
      else if nm = ''keyword_search'' then
        if \<not> isValidSearchArgs args then invalid_arguments
        else axios_try up ''https://restapi.amap.com/v3/place/text''
          [(''key'', Some (JStr API_KEY)),
           (''keywords'', get_prop args ''keywords''),
           (''types'', get_prop args ''types''),
           (''city'', get_prop args ''city''),
           (''citylimit'', get_prop args ''citylimit''),
           (''children'', get_prop args ''children''),
           (''offset'', get_prop args ''offset''),
           (''page'', get_prop args ''page''),
           (''extensions'', get_prop args ''extensions'')]
      else if nm = ''around_search'' then
        if \<not> isValidSearchArgs args then invalid_arguments
        else axios_try up ''https://restapi.amap.com/v3/place/around''
          [(''key'', Some (JStr API_KEY)),
           (''location'', get_prop args ''location''),
           (''keywords'', get_prop args ''keywords''),
           (''types'', get_prop args ''types''),
           (''city'', get_prop args ''city''),
           (''radius'', get_prop args ''radius''),
           (''sortrule'', get_prop args ''sortrule''),
           (''offset'', get_prop args ''offset''),
           (''page'', get_prop args ''page''),
           (''extensions'', get_prop args ''extensions'')]
      else if nm = ''polygon_search'' then
        if \<not> isValidSearchArgs args then invalid_arguments
        else axios_try up ''https://restapi.amap.com/v3/place/polygon''
          [(''key'', Some (JStr API_KEY)),
           (''polygon'', get_prop args ''polygon''),
           (''keywords'', get_prop args ''keywords''),
           (''types'', get_prop args ''types''),
           (''offset'', get_prop args ''offset''),
           (''page'', get_prop args ''page''),
           (''extensions'', get_prop args ''extensions'')]
      else if nm = ''id_search'' then
        if \<not> isValidSearchArgs args then invalid_arguments
        else axios_try up ''https://restapi.amap.com/v3/place/detail''
          [(''key'', Some (JStr API_KEY)),
           (''id'', get_prop args ''id'')]
      else if nm = ''aoi_boundary_query'' then
        if \<not> isValidSearchArgs args then invalid_arguments
        else axios_try up ''https://restapi.amap.com/v5/aoi/polyline''
          [(''key'', Some (JStr API_KEY)),
           (''id'', get_prop args ''id'')]
      else ([], Throw (McpError MethodNotFound (''Unknown tool: '' @ nm))))"

section \<open>The route server\<close>

text \<open>\<open>const response = await fetch(url); const data = await response.json();\<close>
  and the return that follows, with no \<open>try\<close> around them.\<close>

definition fetch_json :: "upstream \<Rightarrow> string \<Rightarrow> run" where
  "fetch_json up url =
     ([Fetch url],
      case fetch up url of
        Rejected message \<Rightarrow> Throw (Rejection message)
      | Resolved response \<Rightarrow>
          (case response of
             NotJson s \<Rightarrow> Throw (InvalidJson s)
           | Json data \<Rightarrow>
               Return \<lparr>content = [\<lparr>item_type = ''text'', item_text = JSON_stringify data 0\<rparr>],
                       isError = None\<rparr>))"

definition apiKey :: string where
  "apiKey = ''ae4775b98c50d997cab4bcd6c769bf9b''"

text \<open>
  The \<open>CallToolRequestSchema\<close> handler of the route server. Each \<open>const x =
  String(...)\<close> runs in turn, and one that throws ends the handler with its
  \<open>TypeError\<close> before the test and before any request. \<open>!s\<close> on a string is
  \<open>s = []\<close>.
\<close>

definition route_callTool :: "upstream \<Rightarrow> string \<Rightarrow> json option \<Rightarrow> run" where
  "route_callTool up nm args =
     (if nm = ''walking_route'' then
        (case String_js (get_prop args ''origin'') of
           None \<Rightarrow> ([], Throw TypeError)
         | Some origin \<Rightarrow>
        (case String_js (get_prop args ''destination'') of
           None \<Rightarrow> ([], Throw TypeError)
         | Some destination \<Rightarrow>
            if origin = [] \<or> destination = []
            then ([], Throw (Error ''Origin and destination are required''))
            else fetch_json up (''https://restapi.amap.com/v3/direction/walking?origin='' @ origin
                   @ ''&destination='' @ destination @ ''&key='' @ apiKey)))
      else if nm = ''transit_route'' then
        (case String_js (get_prop args ''origin'') of
           None \<Rightarrow> ([], Throw TypeError)
         | Some origin \<Rightarrow>
        (case String_js (get_prop args ''destination'') of
           None \<Rightarrow> ([], Throw TypeError)
         | Some destination \<Rightarrow>
        (case String_js (get_prop args ''city'') of
           None \<Rightarrow> ([], Throw TypeError)
         | Some city \<Rightarrow>
            if origin = [] \<or> destination = [] \<or> city = []
            then ([], Throw (Error ''Origin, destination and city are required''))
            else fetch_json up (''https://restapi.amap.com/v3/direction/transit/integrated?origin=''
                   @ origin @ ''&destination='' @ destination @ ''&city='' @ city
                   @ ''&key='' @ apiKey))))
      else if nm = ''driving_route'' then
        (case String_js (get_prop args ''origin'') of
           None \<Rightarrow> ([], Throw TypeError)
         | Some origin \<Rightarrow>
        (case String_js (get_prop args ''destination'') of
           None \<Rightarrow> ([], Throw TypeError)
         | Some destination \<Rightarrow>
            if origin = [] \<or> destination = []
            then ([], Throw (Error ''Origin and destination are required''))
            else fetch_json up (''https://restapi.amap.com/v3/direction/driving?origin='' @ origin
                   @ ''&destination='' @ destination @ ''&key='' @ apiKey)))
      else if nm = ''bicycling_route'' then
        (case String_js (get_prop args ''origin'') of
           None \<Rightarrow> ([], Throw TypeError)
         | Some origin \<Rightarrow>
        (case String_js (get_prop args ''destination'') of
           None \<Rightarrow> ([], Throw TypeError)
         | Some destination \<Rightarrow>
            if origin = [] \<or> destination = []
            then ([], Throw (Error ''Origin and destination are required''))
            else fetch_json up (''https://restapi.amap.com/v4/direction/bicycling?origin='' @ origin
                   @ ''&destination='' @ destination @ ''&key='' @ apiKey)))
      else if nm = ''distance'' then
        (case String_js (get_prop args ''origins'') of
           None \<Rightarrow> ([], Throw TypeError)
         | Some origins \<Rightarrow>
        (case String_js (get_prop args ''destination'') of
           None \<Rightarrow> ([], Throw TypeError)
         | Some destination \<Rightarrow>
            if origins = [] \<or> destination = []
            then ([], Throw (Error ''Origins and destination are required''))
            else fetch_json up (''https://restapi.amap.com/v3/distance?origins='' @ origins
                   @ ''&destination='' @ destination @ ''&key='' @ apiKey)))
      else ([], Throw (Error ''Unknown tool'')))"

section \<open>Start-up and shutdown\<close>

text \<open>
  The process environment is a map from variable names to strings. The module
  body of the coordinate server reads \<open>AMAP_API_KEY\<close> and throws when it is
  unset or empty (\<open>!API_KEY\<close>); otherwise the server is built and serves with that
  key. The route server's \<open>main\<close> reads nothing from the environment. Connecting
  the transport is outside both models.
\<close>

type_synonym env = "string \<rightharpoonup> string"

datatype 'a startup = Uncaught thrown | Serving 'a

definition coordinate_main :: "env \<Rightarrow> string startup" where
  "coordinate_main e =
     (case e ''AMAP_API_KEY'' of
        None \<Rightarrow> Uncaught (Error ''AMAP_API_KEY environment variable is required'')
      | Some API_KEY \<Rightarrow>
          if API_KEY = []
          then Uncaught (Error ''AMAP_API_KEY environment variable is required'')
          else Serving API_KEY)"

definition route_main :: "env \<Rightarrow> unit startup" where
  "route_main e = Serving ()"

text \<open>
  What the process does from then on. An error thrown by the module body and
  caught by nothing ends a Node process: the error is printed on standard error
  and the exit status is 1. \<open>SIGINT\<close> runs the handler registered with
  \<open>process.on('SIGINT', ...)\<close>; with no handler registered the signal kills the
  process.
\<close>

datatype event =
    Stderr thrown
  | ServerClose
  | Exit nat
  | KilledBySignal

definition node_uncaught :: "thrown \<Rightarrow> event list" where
  "node_uncaught t = [Stderr t, Exit 1]"

definition coordinate_SIGINT :: "event list" where
  "coordinate_SIGINT = [ServerClose, Exit 0]"

definition route_SIGINT :: "event list" where
  "route_SIGINT = [KilledBySignal]"

text \<open>A tool call to the running process: none is served when the module body threw.\<close>

definition coordinate_process :: "env \<Rightarrow> upstream \<Rightarrow> string \<Rightarrow> json option \<Rightarrow> event list + run" where
  "coordinate_process e up nm args =
     (case coordinate_main e of
        Uncaught t \<Rightarrow> Inl (node_uncaught t)
      | Serving API_KEY \<Rightarrow> Inr (coordinate_callTool API_KEY up nm args))"

definition route_process :: "env \<Rightarrow> upstream \<Rightarrow> string \<Rightarrow> json option \<Rightarrow> event list + run" where
  "route_process e up nm args =
     (case route_main e of
        Uncaught t \<Rightarrow> Inl (node_uncaught t)
      | Serving u \<Rightarrow> Inr (route_callTool up nm args))"

section \<open>Notions used in the statements\<close>

text \<open>The five keys \<open>isValidSearchArgs\<close> looks for, in the order of its \<open>if\<close> chain,
  and the first of them that an argument bag holds.\<close>

definition discriminators :: "string list" where
  "discriminators = [''locations'', ''keywords'', ''location'', ''polygon'', ''id'']"

definition first_discriminator :: "json \<Rightarrow> string option" where
  "first_discriminator a = find (\<lambda>k. has_key k a) discriminators"

text \<open>
  The six branches of the coordinate server's switch read as a table: the tool,
  the URL, and the names of the \<open>params\<close> object in the order they are written.
  \<open>key\<close> is bound to \<open>API_KEY\<close>, every other name to the property of that name
  read from the arguments.
\<close>

definition coordinate_table :: "(string \<times> string \<times> string list) list" where
  "coordinate_table =
   [(''coordinate_convert'', ''https://restapi.amap.com/v3/assistant/coordinate/convert'',
       [''locations'', ''coordsys'', ''output'', ''key'']),
    (''keyword_search'', ''https://restapi.amap.com/v3/place/text'',
       [''key'', ''keywords'', ''types'', ''city'', ''citylimit'', ''children'', ''offset'',
        ''page'', ''extensions'']),
    (''around_search'', ''https://restapi.amap.com/v3/place/around'',
       [''key'', ''location'', ''keywords'', ''types'', ''city'', ''radius'', ''sortrule'',
        ''offset'', ''page'', ''extensions'']),
    (''polygon_search'', ''https://restapi.amap.com/v3/place/polygon'',
       [''key'', ''polygon'', ''keywords'', ''types'', ''offset'', ''page'', ''extensions'']),
    (''id_search'', ''https://restapi.amap.com/v3/place/detail'', [''key'', ''id'']),
    (''aoi_boundary_query'', ''https://restapi.amap.com/v5/aoi/polyline'', [''key'', ''id''])]"

definition coordinate_params :: "string \<Rightarrow> json option \<Rightarrow> string list \<Rightarrow> (string \<times> json option) list" where
  "coordinate_params k args keys =
     map (\<lambda>p. (p, if p = ''key'' then Some (JStr k) else get_prop args p)) keys"

text \<open>
  The five branches of the route server's switch read as a table: the tool, the
  URL up to the question mark, the arguments coerced with \<open>String\<close> in the order
  they enter the query string, and the message of the error thrown when one of
  the coerced strings is empty.
\<close>

definition route_table :: "(string \<times> string \<times> string list \<times> string) list" where
  "route_table =
   [(''walking_route'', ''https://restapi.amap.com/v3/direction/walking'',
       [''origin'', ''destination''], ''Origin and destination are required''),
    (''transit_route'', ''https://restapi.amap.com/v3/direction/transit/integrated'',
       [''origin'', ''destination'', ''city''], ''Origin, destination and city are required''),
    (''driving_route'', ''https://restapi.amap.com/v3/direction/driving'',
       [''origin'', ''destination''], ''Origin and destination are required''),
    (''bicycling_route'', ''https://restapi.amap.com/v4/direction/bicycling'',
       [''origin'', ''destination''], ''Origin and destination are required''),
    (''distance'', ''https://restapi.amap.com/v3/distance'',
       [''origins'', ''destination''], ''Origins and destination are required'')]"

definition query :: "(string \<times> string) list \<Rightarrow> string" where
  "query kvs = join_with ''&'' (map (\<lambda>kv. fst kv @ ''='' @ snd kv) kvs)"

text \<open>The \<open>String(...)\<close> conversions of the arguments named \<open>ks\<close>, in order: the
  strings they give, or \<open>None\<close> when one of them throws.\<close>

primrec coerce_all :: "json option \<Rightarrow> string list \<Rightarrow> string list option" where
  "coerce_all args [] = Some []"
| "coerce_all args (k # ks) =
     (case String_js (get_prop args k) of
        None \<Rightarrow> None
      | Some v \<Rightarrow>
          (case coerce_all args ks of None \<Rightarrow> None | Some vs \<Rightarrow> Some (v # vs)))"

text \<open>A mocked upstream that answers every request with status 200 and the body
  \<open>b\<close>, one that answers with the status \<open>s\<close> and the body \<open>b\<close>, and one on which
  every request fails with the message \<open>m\<close>.\<close>

definition mock_upstream :: "json \<Rightarrow> upstream" where
  "mock_upstream b = (\<lambda>r. Response 200 (Json b))"

definition status_upstream :: "nat \<Rightarrow> json \<Rightarrow> upstream" where
  "status_upstream s b = (\<lambda>r. Response s (Json b))"

definition failing_upstream :: "string \<Rightarrow> upstream" where
  "failing_upstream m = (\<lambda>r. NetworkError m)"

text \<open>The texts of the response a run returned, if it returned one.\<close>

definition returned_texts :: "run \<Rightarrow> string list option" where
  "returned_texts r =
     (case snd r of Return resp \<Rightarrow> Some (map item_text (content resp)) | Throw t \<Rightarrow> None)"

section \<open>The switch, branch by branch\<close>

lemma names_coordinate_listTools:
  "map name coordinate_listTools =
     [''coordinate_convert'', ''keyword_search'', ''around_search'',
      ''polygon_search'', ''id_search'', ''aoi_boundary_query'']"
  by (simp add: coordinate_listTools_def mk_tool_def)

lemma names_route_listTools:
  "map name route_listTools =
     [''walking_route'', ''transit_route'', ''driving_route'', ''bicycling_route'', ''distance'']"
  by (simp add: route_listTools_def mk_tool_def)

lemma required_coordinate_listTools:
  "map (\<lambda>t. (name t, required (inputSchema t))) coordinate_listTools =
     [(''coordinate_convert'', [''locations'']),
      (''keyword_search'', [''keywords'']),
      (''around_search'', [''location'']),
      (''polygon_search'', [''polygon'']),
      (''id_search'', [''id'']),
      (''aoi_boundary_query'', [''id''])]"
  by (simp add: coordinate_listTools_def mk_tool_def)

lemma required_route_listTools:
  "map (\<lambda>t. (name t, required (inputSchema t))) route_listTools =
     [(''walking_route'', [''origin'', ''destination'']),
      (''transit_route'', [''origin'', ''destination'', ''city'']),
      (''driving_route'', [''origin'', ''destination'']),
      (''bicycling_route'', [''origin'', ''destination'']),
      (''distance'', [''origins'', ''destination''])]"
  by (simp add: route_listTools_def mk_tool_def)

text \<open>Every branch of the coordinate server is the same guard followed by one
  \<open>axios.get\<close> inside a \<open>try\<close>, as its row of \<open>coordinate_table\<close> says.\<close>

lemma coordinate_branch:
  "\<forall>(nm, url, keys) \<in> set coordinate_table.
     coordinate_callTool k up nm args =
       (if \<not> isValidSearchArgs args then invalid_arguments
        else axios_try up url (coordinate_params k args keys))"
  by (simp add: coordinate_table_def coordinate_callTool_def coordinate_params_def)

lemma coordinate_table_catalog:
  "map fst coordinate_table = map name coordinate_listTools"
  by (simp add: coordinate_table_def names_coordinate_listTools)

text \<open>Every branch of the route server is its row of \<open>route_table\<close>.\<close>

lemma route_walking:
  "route_callTool up ''walking_route'' args =
     (case coerce_all args [''origin'', ''destination''] of
        None \<Rightarrow> ([], Throw TypeError)
      | Some vs \<Rightarrow>
          if [] \<in> set vs then ([], Throw (Error ''Origin and destination are required''))
          else fetch_json up (''https://restapi.amap.com/v3/direction/walking'' @ ''?'' @
                 query (zip [''origin'', ''destination''] vs @ [(''key'', apiKey)])))"
  by (cases "String_js (get_prop args ''origin'')";
      cases "String_js (get_prop args ''destination'')")
     (simp_all add: route_callTool_def query_def eq_commute [of "[]"])

lemma route_transit:
  "route_callTool up ''transit_route'' args =
     (case coerce_all args [''origin'', ''destination'', ''city''] of
        None \<Rightarrow> ([], Throw TypeError)
      | Some vs \<Rightarrow>
          if [] \<in> set vs then ([], Throw (Error ''Origin, destination and city are required''))
          else fetch_json up (''https://restapi.amap.com/v3/direction/transit/integrated'' @ ''?'' @
                 query (zip [''origin'', ''destination'', ''city''] vs @ [(''key'', apiKey)])))"
  by (cases "String_js (get_prop args ''origin'')";
      cases "String_js (get_prop args ''destination'')";
      cases "String_js (get_prop args ''city'')")
     (simp_all add: route_callTool_def query_def eq_commute [of "[]"])

lemma route_driving:
  "route_callTool up ''driving_route'' args =
     (case coerce_all args [''origin'', ''destination''] of
        None \<Rightarrow> ([], Throw TypeError)
      | Some vs \<Rightarrow>
          if [] \<in> set vs then ([], Throw (Error ''Origin and destination are required''))
          else fetch_json up (''https://restapi.amap.com/v3/direction/driving'' @ ''?'' @
                 query (zip [''origin'', ''destination''] vs @ [(''key'', apiKey)])))"
  by (cases "String_js (get_prop args ''origin'')";
      cases "String_js (get_prop args ''destination'')")
     (simp_all add: route_callTool_def query_def eq_commute [of "[]"])

lemma route_bicycling:
  "route_callTool up ''bicycling_route'' args =
     (case coerce_all args [''origin'', ''destination''] of
        None \<Rightarrow> ([], Throw TypeError)
      | Some vs \<Rightarrow>
          if [] \<in> set vs then ([], Throw (Error ''Origin and destination are required''))
          else fetch_json up (''https://restapi.amap.com/v4/direction/bicycling'' @ ''?'' @
                 query (zip [''origin'', ''destination''] vs @ [(''key'', apiKey)])))"
  by (cases "String_js (get_prop args ''origin'')";
      cases "String_js (get_prop args ''destination'')")
     (simp_all add: route_callTool_def query_def eq_commute [of "[]"])

lemma route_distance:
  "route_callTool up ''distance'' args =
     (case coerce_all args [''origins'', ''destination''] of
        None \<Rightarrow> ([], Throw TypeError)
      | Some vs \<Rightarrow>
          if [] \<in> set vs then ([], Throw (Error ''Origins and destination are required''))
          else fetch_json up (''https://restapi.amap.com/v3/distance'' @ ''?'' @
                 query (zip [''origins'', ''destination''] vs @ [(''key'', apiKey)])))"
  by (cases "String_js (get_prop args ''origins'')";
      cases "String_js (get_prop args ''destination'')")
     (simp_all add: route_callTool_def query_def eq_commute [of "[]"])

lemma route_branch:
  "\<forall>(nm, base, reqs, msg) \<in> set route_table.
     route_callTool up nm args =
       (case coerce_all args reqs of
          None \<Rightarrow> ([], Throw TypeError)
        | Some vs \<Rightarrow>
            if [] \<in> set vs then ([], Throw (Error msg))
            else fetch_json up (base @ ''?'' @ query (zip reqs vs @ [(''key'', apiKey)])))"
  unfolding route_table_def
  by (simp only: list.set ball_simps prod.case
        route_walking route_transit route_driving route_bicycling route_distance)

lemma route_table_catalog:
  "map (\<lambda>(nm, base, reqs, msg). (nm, reqs)) route_table =
   map (\<lambda>t. (name t, required (inputSchema t))) route_listTools"
  by (simp add: route_table_def required_route_listTools)

text \<open>The conversions of a branch throw when one of them does; when none does,
  each argument is paired in the query with the string it gave.\<close>

lemma coerce_all_None:
  "coerce_all args ks = None \<longleftrightarrow> (\<exists>k \<in> set ks. String_js (get_prop args k) = None)"
  by (induction ks) (auto split: option.splits)

lemma coerce_all_Some:
  "coerce_all args ks = Some vs \<Longrightarrow>
     length vs = length ks \<and>
     (\<forall>k \<in> set ks. \<exists>v. String_js (get_prop args k) = Some v \<and> (k, v) \<in> set (zip ks vs))"
proof (induction ks arbitrary: vs)
  case Nil
  then show ?case by simp
next
  case (Cons k ks)
  from Cons.prems obtain v ws where v: "String_js (get_prop args k) = Some v"
    and ws: "coerce_all args ks = Some ws" and vs: "vs = v # ws"
    by (auto split: option.splits)
  from Cons.IH [OF ws] show ?case unfolding vs using v by auto
qed

text \<open>\<open>isValidSearchArgs\<close> decides on the first of the five keys the bag holds.\<close>

lemma isValidSearchArgs_discriminator:
  "isValidSearchArgs args =
     (case args of
        Some (JObj kvs) \<Rightarrow>
          (case first_discriminator (JObj kvs) of
             None \<Rightarrow> False
           | Some d \<Rightarrow>
               typeof (get_prop args d) = ''string'' \<and>
               (d = ''locations'' \<longrightarrow>
                  (get_prop args ''coordsys'' = None \<or> typeof (get_prop args ''coordsys'') = ''string'') \<and>
                  (get_prop args ''output'' = None \<or> typeof (get_prop args ''output'') = ''string'')))
      | _ \<Rightarrow> False)"
proof (cases args)
  case None
  then show ?thesis by (simp add: isValidSearchArgs_def)
next
  case (Some a)
  show ?thesis
  proof (cases a)
    case (JObj kvs)
    show ?thesis unfolding Some JObj
      by (simp add: isValidSearchArgs_def first_discriminator_def discriminators_def)
  qed (simp_all add: Some isValidSearchArgs_def)
qed

section \<open>The catalogs\<close>

text \<open>
  C6. \<open>listTools\<close> is a constant of each server: it takes no argument and reads
  no state, so every call gives the same descriptors. The required parameters
  of each descriptor are the required column of the endpoint table:
  \<open>coordinate_convert\<close> requires \<open>locations\<close>, \<open>keyword_search\<close> \<open>keywords\<close>,
  \<open>around_search\<close> \<open>location\<close>, \<open>polygon_search\<close> \<open>polygon\<close>, \<open>id_search\<close> and
  \<open>aoi_boundary_query\<close> \<open>id\<close>; the four route tools require \<open>origin\<close> and
  \<open>destination\<close> (\<open>transit_route\<close> also \<open>city\<close>), and \<open>distance\<close> requires
  \<open>origins\<close> and \<open>destination\<close>.
\<close>

theorem listTools_required_columns:
  "map (\<lambda>t. (name t, required (inputSchema t))) coordinate_listTools =
     [(''coordinate_convert'', [''locations'']),
      (''keyword_search'', [''keywords'']),
      (''around_search'', [''location'']),
      (''polygon_search'', [''polygon'']),
      (''id_search'', [''id'']),
      (''aoi_boundary_query'', [''id''])]
   \<and> map (\<lambda>t. (name t, required (inputSchema t))) route_listTools =
     [(''walking_route'', [''origin'', ''destination'']),
      (''transit_route'', [''origin'', ''destination'', ''city'']),
      (''driving_route'', [''origin'', ''destination'']),
      (''bicycling_route'', [''origin'', ''destination'']),
      (''distance'', [''origins'', ''destination''])]"
  by (simp only: required_coordinate_listTools required_route_listTools)

section \<open>Unknown tools\<close>

text \<open>
  C5. A call whose tool name is not in the catalog is answered by a thrown
  error, not by a response: \<open>McpError(MethodNotFound, "Unknown tool: <name>")\<close> in
  the coordinate server, \<open>Error("Unknown tool")\<close> in the route server. No request
  is built or sent: the list of requests is empty.
\<close>

theorem unknown_tool_is_thrown:
  "(nm \<notin> set (map name coordinate_listTools) \<longrightarrow>
      coordinate_callTool k up nm args =
        ([], Throw (McpError MethodNotFound (''Unknown tool: '' @ nm))))
   \<and> (nm \<notin> set (map name route_listTools) \<longrightarrow>
      route_callTool up nm args = ([], Throw (Error ''Unknown tool'')))"
  by (simp add: names_coordinate_listTools names_route_listTools
        coordinate_callTool_def route_callTool_def)

theorem unknown_tool_is_thrown_witness:
  "''create_note'' \<notin> set (map name coordinate_listTools)
   \<and> ''create_note'' \<notin> set (map name route_listTools)
   \<and> coordinate_callTool ''K'' (mock_upstream JNull) ''create_note'' None =
        ([], Throw (McpError MethodNotFound ''Unknown tool: create_note''))
   \<and> route_callTool (mock_upstream JNull) ''create_note'' None =
        ([], Throw (Error ''Unknown tool''))"
  using unknown_tool_is_thrown [of "''create_note''" "''K''" "mock_upstream JNull" None]
  by (simp add: names_coordinate_listTools names_route_listTools)

section \<open>The shared validator of the coordinate server\<close>

lemma required_absent_in_params:
  "\<forall>(nm, url, keys) \<in> set coordinate_table.
     \<forall>t \<in> set coordinate_listTools. name t = nm \<longrightarrow>
       (\<forall>r \<in> set (required (inputSchema t)).
          get_prop args r = None \<longrightarrow> (r, None) \<in> set (coordinate_params k args keys))"
  by (simp add: coordinate_table_def coordinate_listTools_def mk_tool_def coordinate_params_def)

text \<open>
  C9 as stated fails: a bag that holds a string under the key of another tool
  does not always pass. \<open>coordinate_convert\<close> called with \<open>{id: "x", keywords: 5}\<close>
  is rejected, because the guard examines \<open>keywords\<close>, which comes before \<open>id\<close>
  in its order; \<open>keyword_search\<close> called with \<open>{locations: "116.4,39.9",
  coordsys: 5}\<close> is rejected, because with \<open>locations\<close> the guard also tests
  \<open>coordsys\<close>.
\<close>

theorem other_tools_key_can_be_rejected:
  "coordinate_callTool ''K'' (mock_upstream JNull) ''coordinate_convert''
     (Some (JObj [(''id'', JStr ''x''), (''keywords'', JNum ''5'')])) =
     ([], Throw (McpError InvalidParams ''Invalid arguments''))
   \<and> coordinate_callTool ''K'' (mock_upstream JNull) ''keyword_search''
     (Some (JObj [(''locations'', JStr ''116.4,39.9''), (''coordsys'', JNum ''5'')])) =
     ([], Throw (McpError InvalidParams ''Invalid arguments''))"
  by (simp add: coordinate_callTool_def isValidSearchArgs_def invalid_arguments_def)

text \<open>
  C9, amended. All six branches of the coordinate server apply the same guard
  \<open>isValidSearchArgs\<close>, which never looks at the tool: each tool answers with its
  own request when the guard holds and with \<open>McpError(InvalidParams)\<close> when it
  does not. The guard decides on the first key the bag holds among \<open>locations\<close>,
  \<open>keywords\<close>, \<open>location\<close>, \<open>polygon\<close>, \<open>id\<close>, in that order: the bag passes exactly
  when that key holds a string and, if the key is \<open>locations\<close>, \<open>coordsys\<close> and
  \<open>output\<close> are each absent or a string. So for every tool, a bag whose first
  such key holds a string (with that condition on \<open>coordsys\<close> and \<open>output\<close>) and
  which lacks the required parameter of the invoked tool passes, and the
  request is sent with that parameter \<open>undefined\<close>.
\<close>

theorem shared_validator_ignores_tool:
  "(\<forall>(nm, url, keys) \<in> set coordinate_table.
      coordinate_callTool k up nm args =
        (if isValidSearchArgs args
         then axios_try up url (coordinate_params k args keys)
         else ([], Throw (McpError InvalidParams ''Invalid arguments''))))
   \<and> map fst coordinate_table = map name coordinate_listTools
   \<and> isValidSearchArgs args =
       (case args of
          Some (JObj kvs) \<Rightarrow>
            (case first_discriminator (JObj kvs) of
               None \<Rightarrow> False
             | Some d \<Rightarrow>
                 typeof (get_prop args d) = ''string'' \<and>
                 (d = ''locations'' \<longrightarrow>
                    (get_prop args ''coordsys'' = None \<or> typeof (get_prop args ''coordsys'') = ''string'') \<and>
                    (get_prop args ''output'' = None \<or> typeof (get_prop args ''output'') = ''string'')))
        | _ \<Rightarrow> False)
   \<and> (\<forall>(nm, url, keys) \<in> set coordinate_table.
        \<forall>t \<in> set coordinate_listTools. name t = nm \<longrightarrow>
          (\<forall>r \<in> set (required (inputSchema t)).
             args = Some a \<and> first_discriminator a = Some d \<and>
             typeof (get_prop args d) = ''string'' \<and>
             (d = ''locations'' \<longrightarrow>
                (get_prop args ''coordsys'' = None \<or> typeof (get_prop args ''coordsys'') = ''string'') \<and>
                (get_prop args ''output'' = None \<or> typeof (get_prop args ''output'') = ''string'')) \<and>
             get_prop args r = None \<longrightarrow>
               coordinate_callTool k up nm args = axios_try up url (coordinate_params k args keys)
               \<and> fst (axios_try up url (coordinate_params k args keys)) =
                   [AxiosGet url (coordinate_params k args keys)]
               \<and> (r, None) \<in> set (coordinate_params k args keys)))"
proof (intro conjI)
  show "\<forall>(nm, url, keys) \<in> set coordinate_table.
      coordinate_callTool k up nm args =
        (if isValidSearchArgs args
         then axios_try up url (coordinate_params k args keys)
         else ([], Throw (McpError InvalidParams ''Invalid arguments'')))"
    using coordinate_branch [of k up args] by (auto simp add: invalid_arguments_def)
  show "map fst coordinate_table = map name coordinate_listTools"
    by (rule coordinate_table_catalog)
  show "isValidSearchArgs args =
       (case args of
          Some (JObj kvs) \<Rightarrow>
            (case first_discriminator (JObj kvs) of
               None \<Rightarrow> False
             | Some d \<Rightarrow>
                 typeof (get_prop args d) = ''string'' \<and>
                 (d = ''locations'' \<longrightarrow>
                    (get_prop args ''coordsys'' = None \<or> typeof (get_prop args ''coordsys'') = ''string'') \<and>
                    (get_prop args ''output'' = None \<or> typeof (get_prop args ''output'') = ''string'')))
        | _ \<Rightarrow> False)"
    by (rule isValidSearchArgs_discriminator)
  show "\<forall>(nm, url, keys) \<in> set coordinate_table.
        \<forall>t \<in> set coordinate_listTools. name t = nm \<longrightarrow>
          (\<forall>r \<in> set (required (inputSchema t)).
             args = Some a \<and> first_discriminator a = Some d \<and>
             typeof (get_prop args d) = ''string'' \<and>
             (d = ''locations'' \<longrightarrow>
                (get_prop args ''coordsys'' = None \<or> typeof (get_prop args ''coordsys'') = ''string'') \<and>
                (get_prop args ''output'' = None \<or> typeof (get_prop args ''output'') = ''string'')) \<and>
             get_prop args r = None \<longrightarrow>
               coordinate_callTool k up nm args = axios_try up url (coordinate_params k args keys)
               \<and> fst (axios_try up url (coordinate_params k args keys)) =
                   [AxiosGet url (coordinate_params k args keys)]
               \<and> (r, None) \<in> set (coordinate_params k args keys))"
  proof (intro ballI)
    fix row
    assume row_in: "row \<in> set coordinate_table"
    obtain nm url keys where row: "row = (nm, url, keys)" by (cases row)
    have "\<forall>t \<in> set coordinate_listTools. name t = nm \<longrightarrow>
          (\<forall>r \<in> set (required (inputSchema t)).
             args = Some a \<and> first_discriminator a = Some d \<and>
             typeof (get_prop args d) = ''string'' \<and>
             (d = ''locations'' \<longrightarrow>
                (get_prop args ''coordsys'' = None \<or> typeof (get_prop args ''coordsys'') = ''string'') \<and>
                (get_prop args ''output'' = None \<or> typeof (get_prop args ''output'') = ''string'')) \<and>
             get_prop args r = None \<longrightarrow>
               coordinate_callTool k up nm args = axios_try up url (coordinate_params k args keys)
               \<and> fst (axios_try up url (coordinate_params k args keys)) =
                   [AxiosGet url (coordinate_params k args keys)]
               \<and> (r, None) \<in> set (coordinate_params k args keys))"
    proof (intro ballI impI)
      fix t r
      assume t: "t \<in> set coordinate_listTools" and nm: "name t = nm"
        and r: "r \<in> set (required (inputSchema t))"
        and h: "args = Some a \<and> first_discriminator a = Some d \<and>
             typeof (get_prop args d) = ''string'' \<and>
             (d = ''locations'' \<longrightarrow>
                (get_prop args ''coordsys'' = None \<or> typeof (get_prop args ''coordsys'') = ''string'') \<and>
                (get_prop args ''output'' = None \<or> typeof (get_prop args ''output'') = ''string'')) \<and>
             get_prop args r = None"
      from h have args: "args = Some a" and first: "first_discriminator a = Some d"
        and str: "typeof (get_prop (Some a) d) = ''string''"
        and loc: "d = ''locations'' \<longrightarrow>
                (get_prop (Some a) ''coordsys'' = None \<or> typeof (get_prop (Some a) ''coordsys'') = ''string'') \<and>
                (get_prop (Some a) ''output'' = None \<or> typeof (get_prop (Some a) ''output'') = ''string'')"
        and absent: "get_prop (Some a) r = None"
        by auto
      have valid: "isValidSearchArgs (Some a)"
      proof (cases a)
        case (JObj kvs)
        with first str loc show ?thesis
          by (simp add: isValidSearchArgs_discriminator)
      qed (use first in \<open>simp_all add: first_discriminator_def discriminators_def\<close>)
      from coordinate_branch [of k up "Some a", THEN bspec, OF row_in] valid
      have run: "coordinate_callTool k up nm (Some a) =
                   axios_try up url (coordinate_params k (Some a) keys)"
        by (simp add: row)
      from required_absent_in_params [of "Some a" k, THEN bspec, OF row_in]
      have "\<forall>t \<in> set coordinate_listTools. name t = nm \<longrightarrow>
              (\<forall>r \<in> set (required (inputSchema t)).
                 get_prop (Some a) r = None \<longrightarrow>
                   (r, None) \<in> set (coordinate_params k (Some a) keys))"
        by (simp add: row)
      with t nm r absent have mem: "(r, None) \<in> set (coordinate_params k (Some a) keys)"
        by blast
      show "coordinate_callTool k up nm args = axios_try up url (coordinate_params k args keys)
            \<and> fst (axios_try up url (coordinate_params k args keys)) =
                [AxiosGet url (coordinate_params k args keys)]
            \<and> (r, None) \<in> set (coordinate_params k args keys)"
        using run mem by (simp add: args axios_try_def)
    qed
    then show "case row of (nm, url, keys) \<Rightarrow>
        \<forall>t \<in> set coordinate_listTools. name t = nm \<longrightarrow>
          (\<forall>r \<in> set (required (inputSchema t)).
             args = Some a \<and> first_discriminator a = Some d \<and>
             typeof (get_prop args d) = ''string'' \<and>
             (d = ''locations'' \<longrightarrow>
                (get_prop args ''coordsys'' = None \<or> typeof (get_prop args ''coordsys'') = ''string'') \<and>
                (get_prop args ''output'' = None \<or> typeof (get_prop args ''output'') = ''string'')) \<and>
             get_prop args r = None \<longrightarrow>
               coordinate_callTool k up nm args = axios_try up url (coordinate_params k args keys)
               \<and> fst (axios_try up url (coordinate_params k args keys)) =
                   [AxiosGet url (coordinate_params k args keys)]
               \<and> (r, None) \<in> set (coordinate_params k args keys))"
      by (simp only: row prod.case)
  qed
qed

theorem shared_validator_ignores_tool_witness:
  "(''coordinate_convert'', ''https://restapi.amap.com/v3/assistant/coordinate/convert'',
      [''locations'', ''coordsys'', ''output'', ''key'']) \<in> set coordinate_table
   \<and> first_discriminator (JObj [(''id'', JStr ''x'')]) = Some ''id''
   \<and> typeof (get_prop (Some (JObj [(''id'', JStr ''x'')])) ''id'') = ''string''
   \<and> isValidSearchArgs (Some (JObj [(''id'', JStr ''x'')]))
   \<and> get_prop (Some (JObj [(''id'', JStr ''x'')])) ''locations'' = None
   \<and> fst (coordinate_callTool ''K'' (mock_upstream JNull) ''coordinate_convert''
            (Some (JObj [(''id'', JStr ''x'')]))) =
       [AxiosGet ''https://restapi.amap.com/v3/assistant/coordinate/convert''
          [(''locations'', None), (''coordsys'', None), (''output'', None),
           (''key'', Some (JStr ''K''))]]"
  using shared_validator_ignores_tool
          [of "''K''" "mock_upstream JNull" "Some (JObj [(''id'', JStr ''x'')])"
              "JObj [(''id'', JStr ''x'')]" "''id''"]
  by (simp add: coordinate_table_def discriminators_def coordinate_params_def
        coordinate_listTools_def mk_tool_def first_discriminator_def axios_try_def)

section \<open>The presence check of the route server\<close>

lemma String_js_undefined: "String_js None = Some ''undefined''"
  by (simp add: String_js_def)

lemma fetch_json_requests: "fst (fetch_json up url) = [Fetch url]"
  by (simp add: fetch_json_def)

text \<open>
  C10 as stated fails when a conversion throws. \<open>walking_route\<close> called with
  \<open>{origin: "", destination: {toString: 1}}\<close> throws the \<open>TypeError\<close> of
  \<open>String(destination)\<close>, not the "are required" error; called with
  \<open>{destination: {toString: "x"}}\<close> and no \<open>origin\<close> it throws the same error
  and issues no GET.
\<close>

theorem route_coercion_can_throw:
  "route_callTool (mock_upstream JNull) ''walking_route''
     (Some (JObj [(''origin'', JStr []),
                  (''destination'', JObj [(''toString'', JNum ''1'')])])) =
     ([], Throw TypeError)
   \<and> route_callTool (mock_upstream JNull) ''walking_route''
     (Some (JObj [(''destination'', JObj [(''toString'', JStr ''x'')])])) =
     ([], Throw TypeError)"
  by (simp add: route_callTool_def String_js_def)

text \<open>
  C10, amended. Every route tool coerces each required argument with \<open>String\<close>
  before it tests it. When one of these conversions throws (an argument that is
  an object with an own \<open>toString\<close> property, or an array that holds one), the
  handler throws that \<open>TypeError\<close> and sends no request. When none throws: a
  required argument given as the empty string is rejected with the tool's
  "are required" error and no request is sent; an absent required argument
  becomes the string \<open>undefined\<close>, which passes the test, and when none of the
  coerced strings is empty the GET is issued with \<open>undefined\<close> as that
  parameter's value in the query string. The rows of \<open>route_table\<close> are the tools
  of the catalog with their required parameters.
\<close>

theorem route_string_coercion:
  "(\<forall>(nm, base, reqs, msg) \<in> set route_table.
      (coerce_all args reqs = None \<longrightarrow> route_callTool up nm args = ([], Throw TypeError))
    \<and> (\<forall>k \<in> set reqs.
          coerce_all args reqs = Some vs \<longrightarrow>
            (get_prop args k = Some (JStr []) \<longrightarrow>
               route_callTool up nm args = ([], Throw (Error msg)))
          \<and> (get_prop args k = None \<and> [] \<notin> set vs \<longrightarrow>
               route_callTool up nm args =
                 fetch_json up (base @ ''?'' @ query (zip reqs vs @ [(''key'', apiKey)]))
               \<and> (k, ''undefined'') \<in> set (zip reqs vs))))
   \<and> (coerce_all args ks = None \<longleftrightarrow> (\<exists>k \<in> set ks. String_js (get_prop args k) = None))
   \<and> map (\<lambda>(nm, base, reqs, msg). (nm, reqs)) route_table =
       map (\<lambda>t. (name t, required (inputSchema t))) route_listTools
   \<and> String_js None = Some ''undefined''
   \<and> fst (fetch_json up url) = [Fetch url]"
proof (intro conjI)
  show "\<forall>(nm, base, reqs, msg) \<in> set route_table.
      (coerce_all args reqs = None \<longrightarrow> route_callTool up nm args = ([], Throw TypeError))
    \<and> (\<forall>k \<in> set reqs.
          coerce_all args reqs = Some vs \<longrightarrow>
            (get_prop args k = Some (JStr []) \<longrightarrow>
               route_callTool up nm args = ([], Throw (Error msg)))
          \<and> (get_prop args k = None \<and> [] \<notin> set vs \<longrightarrow>
               route_callTool up nm args =
                 fetch_json up (base @ ''?'' @ query (zip reqs vs @ [(''key'', apiKey)]))
               \<and> (k, ''undefined'') \<in> set (zip reqs vs)))"
  proof (intro ballI)
    fix row
    assume row_in: "row \<in> set route_table"
    obtain nm base reqs msg where row: "row = (nm, base, reqs, msg)" by (cases row)
    have branch: "route_callTool up nm args =
       (case coerce_all args reqs of
          None \<Rightarrow> ([], Throw TypeError)
        | Some vs \<Rightarrow>
            if [] \<in> set vs then ([], Throw (Error msg))
            else fetch_json up (base @ ''?'' @ query (zip reqs vs @ [(''key'', apiKey)])))"
      using route_branch [of up args, THEN bspec, OF row_in] by (simp add: row)
    have thrown: "coerce_all args reqs = None \<longrightarrow> route_callTool up nm args = ([], Throw TypeError)"
      using branch by simp
    have each: "\<forall>k \<in> set reqs.
          coerce_all args reqs = Some vs \<longrightarrow>
            (get_prop args k = Some (JStr []) \<longrightarrow>
               route_callTool up nm args = ([], Throw (Error msg)))
          \<and> (get_prop args k = None \<and> [] \<notin> set vs \<longrightarrow>
               route_callTool up nm args =
                 fetch_json up (base @ ''?'' @ query (zip reqs vs @ [(''key'', apiKey)]))
               \<and> (k, ''undefined'') \<in> set (zip reqs vs))"
    proof (intro ballI impI conjI)
      fix k
      assume k: "k \<in> set reqs" and some: "coerce_all args reqs = Some vs"
      from coerce_all_Some [OF some] k obtain v
        where v: "String_js (get_prop args k) = Some v" and kv: "(k, v) \<in> set (zip reqs vs)"
        by blast
      {
        assume "get_prop args k = Some (JStr [])"
        with v have "v = []" by (simp add: String_js_def)
        with kv have "[] \<in> set vs" by (auto dest: set_zip_rightD)
        with branch some show "route_callTool up nm args = ([], Throw (Error msg))" by simp
      }
      {
        assume a: "get_prop args k = None \<and> [] \<notin> set vs"
        with branch some
        show "route_callTool up nm args =
                fetch_json up (base @ ''?'' @ query (zip reqs vs @ [(''key'', apiKey)]))"
          by simp
        from a v have "v = ''undefined''" by (simp add: String_js_def)
        with kv show "(k, ''undefined'') \<in> set (zip reqs vs)" by simp
      }
    qed
    from thrown each
    show "case row of (nm, base, reqs, msg) \<Rightarrow>
      (coerce_all args reqs = None \<longrightarrow> route_callTool up nm args = ([], Throw TypeError))
    \<and> (\<forall>k \<in> set reqs.
          coerce_all args reqs = Some vs \<longrightarrow>
            (get_prop args k = Some (JStr []) \<longrightarrow>
               route_callTool up nm args = ([], Throw (Error msg)))
          \<and> (get_prop args k = None \<and> [] \<notin> set vs \<longrightarrow>
               route_callTool up nm args =
                 fetch_json up (base @ ''?'' @ query (zip reqs vs @ [(''key'', apiKey)]))
               \<and> (k, ''undefined'') \<in> set (zip reqs vs)))"
      by (simp only: row prod.case)
  qed
  show "coerce_all args ks = None \<longleftrightarrow> (\<exists>k \<in> set ks. String_js (get_prop args k) = None)"
    by (rule coerce_all_None)
  show "map (\<lambda>(nm, base, reqs, msg). (nm, reqs)) route_table =
       map (\<lambda>t. (name t, required (inputSchema t))) route_listTools"
    by (rule route_table_catalog)
  show "String_js None = Some ''undefined''" by (rule String_js_undefined)
  show "fst (fetch_json up url) = [Fetch url]" by (rule fetch_json_requests)
qed

theorem route_string_coercion_witness:
  "(''walking_route'', ''https://restapi.amap.com/v3/direction/walking'',
      [''origin'', ''destination''], ''Origin and destination are required'') \<in> set route_table
   \<and> ''origin'' \<in> set [''origin'', ''destination'']
   \<and> coerce_all (Some (JObj [(''origin'', JStr []), (''destination'', JStr ''116.5,40.0'')]))
        [''origin'', ''destination''] = Some ['''', ''116.5,40.0'']
   \<and> get_prop (Some (JObj [(''origin'', JStr []), (''destination'', JStr ''116.5,40.0'')])) ''origin''
        = Some (JStr [])
   \<and> route_callTool (mock_upstream JNull) ''walking_route''
        (Some (JObj [(''origin'', JStr []), (''destination'', JStr ''116.5,40.0'')])) =
       ([], Throw (Error ''Origin and destination are required''))
   \<and> coerce_all (Some (JObj [(''destination'', JStr ''116.5,40.0'')]))
        [''origin'', ''destination''] = Some [''undefined'', ''116.5,40.0'']
   \<and> get_prop (Some (JObj [(''destination'', JStr ''116.5,40.0'')])) ''origin'' = None
   \<and> fst (route_callTool (mock_upstream JNull) ''walking_route''
        (Some (JObj [(''destination'', JStr ''116.5,40.0'')]))) =
       [Fetch ''https://restapi.amap.com/v3/direction/walking?origin=undefined&destination=116.5,40.0&key=ae4775b98c50d997cab4bcd6c769bf9b'']
   \<and> coerce_all (Some (JObj [(''destination'', JObj [(''toString'', JStr ''x'')])]))
        [''origin'', ''destination''] = None
   \<and> route_callTool (mock_upstream JNull) ''walking_route''
        (Some (JObj [(''destination'', JObj [(''toString'', JStr ''x'')])])) =
       ([], Throw TypeError)"
  using route_string_coercion
          [of "Some (JObj [(''origin'', JStr []), (''destination'', JStr ''116.5,40.0'')])"
              "mock_upstream JNull" "['''', ''116.5,40.0'']"]
        route_string_coercion
          [of "Some (JObj [(''destination'', JStr ''116.5,40.0'')])" "mock_upstream JNull"
              "[''undefined'', ''116.5,40.0'']"]
        route_string_coercion
          [of "Some (JObj [(''destination'', JObj [(''toString'', JStr ''x'')])])"
              "mock_upstream JNull" "[]"]
  by (simp add: route_table_def String_js_def query_def apiKey_def fetch_json_def)

section \<open>A request that succeeds\<close>

text \<open>
  C3 as stated fails on the coordinate server. It serializes with
  \<open>JSON.stringify(response.data, null, 2)\<close>: for the body \<open>{"status":"1"}\<close> the
  text returned by \<open>id_search\<close> spreads over three lines and is not the compact
  text. And not every status counts as a success: when the upstream answers
  with status 500 and that same body, \<open>axios.get\<close> rejects and the response is
  the error text with \<open>isError: true\<close>.
\<close>

theorem id_search_text_is_indented:
  "returned_texts
     (coordinate_callTool ''K'' (mock_upstream (JObj [(''status'', JStr ''1'')])) ''id_search''
        (Some (JObj [(''id'', JStr ''B0FFFAEC0B'')])))
   \<noteq> Some [''{'' @ [CHR 0x22] @ ''status'' @ [CHR 0x22] @ '':'' @ [CHR 0x22] @ ''1'' @ [CHR 0x22] @ ''}'']
   \<and> coordinate_callTool ''K'' (status_upstream 500 (JObj [(''status'', JStr ''1'')])) ''id_search''
        (Some (JObj [(''id'', JStr ''B0FFFAEC0B'')])) =
       ([AxiosGet ''https://restapi.amap.com/v3/place/detail''
           [(''key'', Some (JStr ''K'')), (''id'', Some (JStr ''B0FFFAEC0B''))]],
        Return \<lparr>content = [\<lparr>item_type = ''text'',
                   item_text = ''AMap API error: Request failed with status code 500''\<rparr>],
                isError = Some True\<rparr>)"
  by (simp add: coordinate_callTool_def isValidSearchArgs_def axios_try_def axios_get_def
        mock_upstream_def status_upstream_def returned_texts_def JSON_stringify_def wrap_def
        member_text_def own_properties_def is_array_index_def QuoteJSONString_def
        quote_char_def hex_digit_def)

text \<open>
  C3, amended. When the arguments pass the server's check and the upstream
  answers with a JSON body, the handler returns one text item and no \<open>isError\<close>
  field. In the coordinate server this holds for a status from 200 to 299, and
  the text is the body serialized with an indentation of two spaces,
  \<open>JSON.stringify(body, null, 2)\<close>. In the route server it holds for every
  status, provided no \<open>String\<close> conversion of a required argument throws and
  none gives the empty string, and the text is \<open>JSON.stringify(body)\<close>. The body
  is not inspected.
\<close>

theorem success_passes_body_through:
  "(\<forall>(nm, url, keys) \<in> set coordinate_table.
      isValidSearchArgs args \<and>
      up (AxiosGet url (coordinate_params k args keys)) = Response status (Json data) \<and>
      200 \<le> status \<and> status < 300 \<longrightarrow>
        coordinate_callTool k up nm args =
          ([AxiosGet url (coordinate_params k args keys)],
           Return \<lparr>content = [\<lparr>item_type = ''text'', item_text = JSON_stringify data 2\<rparr>],
                   isError = None\<rparr>))
   \<and> (\<forall>(nm, base, reqs, msg) \<in> set route_table.
      coerce_all args reqs = Some vs \<and> [] \<notin> set vs \<and>
      up (Fetch (base @ ''?'' @ query (zip reqs vs @ [(''key'', apiKey)])))
        = Response status (Json data) \<longrightarrow>
        route_callTool up nm args =
          ([Fetch (base @ ''?'' @ query (zip reqs vs @ [(''key'', apiKey)]))],
           Return \<lparr>content = [\<lparr>item_type = ''text'', item_text = JSON_stringify data 0\<rparr>],
                   isError = None\<rparr>))
   \<and> map fst coordinate_table = map name coordinate_listTools
   \<and> map (\<lambda>(nm, base, reqs, msg). nm) route_table = map name route_listTools"
proof (intro conjI)
  show "\<forall>(nm, url, keys) \<in> set coordinate_table.
      isValidSearchArgs args \<and>
      up (AxiosGet url (coordinate_params k args keys)) = Response status (Json data) \<and>
      200 \<le> status \<and> status < 300 \<longrightarrow>
        coordinate_callTool k up nm args =
          ([AxiosGet url (coordinate_params k args keys)],
           Return \<lparr>content = [\<lparr>item_type = ''text'', item_text = JSON_stringify data 2\<rparr>],
                   isError = None\<rparr>)"
    using coordinate_branch [of k up args]
    by (fastforce simp add: axios_try_def axios_get_def)
  show "\<forall>(nm, base, reqs, msg) \<in> set route_table.
      coerce_all args reqs = Some vs \<and> [] \<notin> set vs \<and>
      up (Fetch (base @ ''?'' @ query (zip reqs vs @ [(''key'', apiKey)])))
        = Response status (Json data) \<longrightarrow>
        route_callTool up nm args =
          ([Fetch (base @ ''?'' @ query (zip reqs vs @ [(''key'', apiKey)]))],
           Return \<lparr>content = [\<lparr>item_type = ''text'', item_text = JSON_stringify data 0\<rparr>],
                   isError = None\<rparr>)"
    using route_branch [of up args]
    by (fastforce simp add: fetch_json_def fetch_def)
  show "map fst coordinate_table = map name coordinate_listTools"
    by (rule coordinate_table_catalog)
  show "map (\<lambda>(nm, base, reqs, msg). nm) route_table = map name route_listTools"
    by (simp add: route_table_def names_route_listTools)
qed

theorem success_passes_body_through_witness:
  "(''id_search'', ''https://restapi.amap.com/v3/place/detail'', [''key'', ''id''])
      \<in> set coordinate_table
   \<and> isValidSearchArgs (Some (JObj [(''id'', JStr ''B0FFFAEC0B'')]))
   \<and> mock_upstream (JObj [(''status'', JStr ''1'')])
        (AxiosGet ''https://restapi.amap.com/v3/place/detail''
           [(''key'', Some (JStr ''K'')), (''id'', Some (JStr ''B0FFFAEC0B''))])
      = Response 200 (Json (JObj [(''status'', JStr ''1'')]))
   \<and> coordinate_callTool ''K'' (mock_upstream (JObj [(''status'', JStr ''1'')])) ''id_search''
        (Some (JObj [(''id'', JStr ''B0FFFAEC0B'')])) =
       ([AxiosGet ''https://restapi.amap.com/v3/place/detail''
           [(''key'', Some (JStr ''K'')), (''id'', Some (JStr ''B0FFFAEC0B''))]],
        Return \<lparr>content = [\<lparr>item_type = ''text'',
                   item_text = ''{'' @ [CHR 0x0A] @ ''  '' @ [CHR 0x22] @ ''status'' @ [CHR 0x22]
                     @ '': '' @ [CHR 0x22] @ ''1'' @ [CHR 0x22] @ [CHR 0x0A] @ ''}''\<rparr>],
                isError = None\<rparr>)
   \<and> (''walking_route'', ''https://restapi.amap.com/v3/direction/walking'',
        [''origin'', ''destination''], ''Origin and destination are required'') \<in> set route_table
   \<and> coerce_all (Some (JObj [(''origin'', JStr ''116.4,39.9''), (''destination'', JStr ''116.5,40.0'')]))
        [''origin'', ''destination''] = Some [''116.4,39.9'', ''116.5,40.0'']
   \<and> route_callTool (mock_upstream (JObj [(''status'', JStr ''1'')])) ''walking_route''
        (Some (JObj [(''origin'', JStr ''116.4,39.9''), (''destination'', JStr ''116.5,40.0'')])) =
       ([Fetch ''https://restapi.amap.com/v3/direction/walking?origin=116.4,39.9&destination=116.5,40.0&key=ae4775b98c50d997cab4bcd6c769bf9b''],
        Return \<lparr>content = [\<lparr>item_type = ''text'',
                   item_text = ''{'' @ [CHR 0x22] @ ''status'' @ [CHR 0x22] @ '':'' @ [CHR 0x22]
                     @ ''1'' @ [CHR 0x22] @ ''}''\<rparr>],
                isError = None\<rparr>)"
  using success_passes_body_through
          [of "Some (JObj [(''id'', JStr ''B0FFFAEC0B'')])"
              "mock_upstream (JObj [(''status'', JStr ''1'')])" "''K''" 200
              "JObj [(''status'', JStr ''1'')]" "[]"]
        success_passes_body_through
          [of "Some (JObj [(''origin'', JStr ''116.4,39.9''), (''destination'', JStr ''116.5,40.0'')])"
              "mock_upstream (JObj [(''status'', JStr ''1'')])" "''K''" 200
              "JObj [(''status'', JStr ''1'')]" "[''116.4,39.9'', ''116.5,40.0'']"]
  by (simp add: coordinate_table_def route_table_def isValidSearchArgs_def mock_upstream_def
        coordinate_params_def String_js_def query_def apiKey_def
        JSON_stringify_def wrap_def member_text_def own_properties_def is_array_index_def
        QuoteJSONString_def quote_char_def eval_nat_numeral)

section \<open>Arguments of the wrong kind\<close>

lemma invalid_rejected:
  "\<forall>t \<in> set coordinate_listTools.
     \<not> isValidSearchArgs args \<longrightarrow> coordinate_callTool k up (name t) args = invalid_arguments"
  by (simp add: coordinate_listTools_def mk_tool_def coordinate_callTool_def)

text \<open>
  C4 as stated fails on the route server, which checks no kind: \<open>walking_route\<close>
  called with the boolean \<open>true\<close> as \<open>origin\<close> sends its request, with
  \<open>origin=true\<close> in the query string.
\<close>

theorem route_accepts_boolean_origin:
  "fst (route_callTool (mock_upstream JNull) ''walking_route''
          (Some (JObj [(''origin'', JBool True), (''destination'', JStr ''116.5,40.0'')]))) =
   [Fetch ''https://restapi.amap.com/v3/direction/walking?origin=true&destination=116.5,40.0&key=ae4775b98c50d997cab4bcd6c769bf9b'']"
  by (simp add: route_callTool_def String_js_def fetch_json_def apiKey_def)

text \<open>
  C4, amended. In the coordinate server, when the required parameter of the
  invoked tool is the key the guard examines (the first of \<open>locations\<close>,
  \<open>keywords\<close>, \<open>location\<close>, \<open>polygon\<close>, \<open>id\<close> that the bag holds) and its value is
  not a string, the call throws \<open>McpError(InvalidParams, "Invalid arguments")\<close> and
  sends no request. The route server checks no kind: every required argument
  is passed to \<open>String\<close>, which turns a boolean, a number or \<open>null\<close> into its
  text; when every conversion succeeds and no coerced string is empty the
  request is sent with the coerced values, and when a conversion throws the
  handler throws that \<open>TypeError\<close> and sends no request.
\<close>

theorem wrong_kind_of_examined_key_rejected:
  "(\<forall>t \<in> set coordinate_listTools. \<forall>r \<in> set (required (inputSchema t)).
      args = Some a \<and> first_discriminator a = Some r \<and> typeof (get_prop args r) \<noteq> ''string'' \<longrightarrow>
        coordinate_callTool k up (name t) args =
          ([], Throw (McpError InvalidParams ''Invalid arguments'')))
   \<and> (\<forall>(nm, base, reqs, msg) \<in> set route_table.
        (coerce_all args reqs = None \<longrightarrow> route_callTool up nm args = ([], Throw TypeError))
      \<and> (coerce_all args reqs = Some vs \<and> [] \<notin> set vs \<longrightarrow>
          fst (route_callTool up nm args) =
            [Fetch (base @ ''?'' @ query (zip reqs vs @ [(''key'', apiKey)]))]))
   \<and> String_js (Some (JBool b)) = Some (if b then ''true'' else ''false'')
   \<and> String_js (Some (JNum n)) = Some n
   \<and> String_js (Some JNull) = Some ''null''"
proof (intro conjI ballI impI)
  fix t r
  assume t: "t \<in> set coordinate_listTools"
    and h: "args = Some a \<and> first_discriminator a = Some r \<and> typeof (get_prop args r) \<noteq> ''string''"
  from h have args: "args = Some a" and first: "first_discriminator a = Some r"
    and kind: "typeof (get_prop (Some a) r) \<noteq> ''string''"
    by auto
  have "\<not> isValidSearchArgs (Some a)"
  proof (cases a)
    case (JObj kvs)
    with first kind show ?thesis by (simp add: isValidSearchArgs_discriminator)
  qed (simp_all add: isValidSearchArgs_discriminator)
  then have "\<not> isValidSearchArgs args" by (simp add: args)
  with invalid_rejected [of args k up] t
  show "coordinate_callTool k up (name t) args =
          ([], Throw (McpError InvalidParams ''Invalid arguments''))"
    by (simp add: invalid_arguments_def)
next
  fix row
  assume "row \<in> set route_table"
  with route_branch [of up args]
  show "case row of (nm, base, reqs, msg) \<Rightarrow>
        (coerce_all args reqs = None \<longrightarrow> route_callTool up nm args = ([], Throw TypeError))
      \<and> (coerce_all args reqs = Some vs \<and> [] \<notin> set vs \<longrightarrow>
          fst (route_callTool up nm args) =
            [Fetch (base @ ''?'' @ query (zip reqs vs @ [(''key'', apiKey)]))])"
    by (fastforce simp add: fetch_json_def)
next
  show "String_js (Some (JBool b)) = Some (if b then ''true'' else ''false'')"
    by (simp add: String_js_def)
  show "String_js (Some (JNum n)) = Some n" by (simp add: String_js_def)
  show "String_js (Some JNull) = Some ''null''" by (simp add: String_js_def)
qed

theorem wrong_kind_of_examined_key_rejected_witness:
  "mk_tool ''id_search'' ''Search for a place by ID using AMap API''
      [(''id'', param ''string'' ''ID of the place to search for'')] [''id'']
     \<in> set coordinate_listTools
   \<and> first_discriminator (JObj [(''id'', JNum ''5'')]) = Some ''id''
   \<and> typeof (get_prop (Some (JObj [(''id'', JNum ''5'')])) ''id'') \<noteq> ''string''
   \<and> coordinate_callTool ''K'' (mock_upstream JNull) ''id_search''
        (Some (JObj [(''id'', JNum ''5'')])) =
       ([], Throw (McpError InvalidParams ''Invalid arguments''))
   \<and> (''walking_route'', ''https://restapi.amap.com/v3/direction/walking'',
        [''origin'', ''destination''], ''Origin and destination are required'') \<in> set route_table
   \<and> coerce_all (Some (JObj [(''origin'', JNum ''5''), (''destination'', JStr ''116.5,40.0'')]))
        [''origin'', ''destination''] = Some [''5'', ''116.5,40.0'']
   \<and> fst (route_callTool (mock_upstream JNull) ''walking_route''
        (Some (JObj [(''origin'', JNum ''5''), (''destination'', JStr ''116.5,40.0'')]))) =
       [Fetch ''https://restapi.amap.com/v3/direction/walking?origin=5&destination=116.5,40.0&key=ae4775b98c50d997cab4bcd6c769bf9b'']
   \<and> coerce_all (Some (JObj [(''origin'', JObj [(''toString'', JNum ''1'')])]))
        [''origin'', ''destination''] = None
   \<and> route_callTool (mock_upstream JNull) ''walking_route''
        (Some (JObj [(''origin'', JObj [(''toString'', JNum ''1'')])])) = ([], Throw TypeError)"
  using wrong_kind_of_examined_key_rejected
          [of "Some (JObj [(''id'', JNum ''5'')])" "JObj [(''id'', JNum ''5'')]"
              "''K''" "mock_upstream JNull" "[]"]
        wrong_kind_of_examined_key_rejected
          [of "Some (JObj [(''origin'', JNum ''5''), (''destination'', JStr ''116.5,40.0'')])"
              "JObj [(''origin'', JNum ''5''), (''destination'', JStr ''116.5,40.0'')]"
              "''K''" "mock_upstream JNull" "[''5'', ''116.5,40.0'']"]
        wrong_kind_of_examined_key_rejected
          [of "Some (JObj [(''origin'', JObj [(''toString'', JNum ''1'')])])"
              "JObj [(''origin'', JObj [(''toString'', JNum ''1'')])]"
              "''K''" "mock_upstream JNull" "[]"]
  by (simp add: coordinate_listTools_def mk_tool_def first_discriminator_def discriminators_def
        route_table_def String_js_def query_def apiKey_def)

section \<open>A missing required parameter\<close>

text \<open>
  C1 says that a call lacking a required parameter fails before any request is
  built. At two inputs the handlers do otherwise. \<open>coordinate_convert\<close> called
  with \<open>{id: "x"}\<close> and no \<open>locations\<close> passes the guard and sends its request with
  \<open>locations\<close> undefined; \<open>walking_route\<close> called with a \<open>destination\<close> and no
  \<open>origin\<close> sends its request with \<open>origin=undefined\<close>.
\<close>

theorem missing_required_parameter_reaches_upstream:
  "coordinate_callTool k up ''coordinate_convert'' (Some (JObj [(''id'', JStr ''x'')])) =
     axios_try up ''https://restapi.amap.com/v3/assistant/coordinate/convert''
       [(''locations'', None), (''coordsys'', None), (''output'', None),
        (''key'', Some (JStr k))]
   \<and> fst (axios_try up ''https://restapi.amap.com/v3/assistant/coordinate/convert''
       [(''locations'', None), (''coordsys'', None), (''output'', None),
        (''key'', Some (JStr k))]) =
     [AxiosGet ''https://restapi.amap.com/v3/assistant/coordinate/convert''
       [(''locations'', None), (''coordsys'', None), (''output'', None),
        (''key'', Some (JStr k))]]
   \<and> fst (route_callTool up ''walking_route''
            (Some (JObj [(''destination'', JStr ''116.5,40.0'')]))) =
     [Fetch ''https://restapi.amap.com/v3/direction/walking?origin=undefined&destination=116.5,40.0&key=ae4775b98c50d997cab4bcd6c769bf9b'']"
  by (simp add: coordinate_callTool_def isValidSearchArgs_def axios_try_def
        route_callTool_def String_js_def fetch_json_def apiKey_def)

section \<open>A request that fails\<close>

text \<open>In the coordinate server a rejected \<open>axios.get\<close> is caught and reported in a
  response with \<open>isError: true\<close> and the text \<open>AMap API error: <message>\<close>.\<close>

lemma coordinate_upstream_failure_is_soft:
  "\<forall>(nm, url, keys) \<in> set coordinate_table.
     isValidSearchArgs args \<and> axios_get up url (coordinate_params k args keys) = Rejected m \<longrightarrow>
       coordinate_callTool k up nm args =
         ([AxiosGet url (coordinate_params k args keys)],
          Return \<lparr>content = [\<lparr>item_type = ''text'', item_text = ''AMap API error: '' @ m\<rparr>],
                  isError = Some True\<rparr>)"
  using coordinate_branch [of k up args] by (fastforce simp add: axios_try_def)

text \<open>
  C2 says that a failing upstream gives a response with \<open>isError: true\<close> and that
  no exception leaves the call. The route server awaits \<open>fetch\<close> outside any
  \<open>try\<close>: with an upstream that refuses the connection, \<open>walking_route\<close> with
  \<open>origin\<close> \<open>116.4,39.9\<close> and \<open>destination\<close> \<open>116.5,40.0\<close> sends its request and the
  rejection leaves the handler as a thrown error; no response is returned.
\<close>

theorem route_upstream_failure_escapes:
  "route_callTool (failing_upstream ''connect ECONNREFUSED'') ''walking_route''
     (Some (JObj [(''origin'', JStr ''116.4,39.9''), (''destination'', JStr ''116.5,40.0'')])) =
   ([Fetch ''https://restapi.amap.com/v3/direction/walking?origin=116.4,39.9&destination=116.5,40.0&key=ae4775b98c50d997cab4bcd6c769bf9b''],
    Throw (Rejection ''connect ECONNREFUSED''))"
  by (simp add: route_callTool_def String_js_def fetch_json_def fetch_def apiKey_def
        failing_upstream_def)

section \<open>The credential\<close>

text \<open>The coordinate server serves only with a non-empty \<open>AMAP_API_KEY\<close>, and
  every request it sends binds \<open>key\<close> to that value.\<close>

lemma coordinate_key_from_environment:
  "coordinate_process e up nm args =
     (case e ''AMAP_API_KEY'' of
        None \<Rightarrow> Inl [Stderr (Error ''AMAP_API_KEY environment variable is required''), Exit 1]
      | Some K \<Rightarrow>
          if K = [] then Inl [Stderr (Error ''AMAP_API_KEY environment variable is required''), Exit 1]
          else Inr (coordinate_callTool K up nm args))"
  by (simp add: coordinate_process_def coordinate_main_def node_uncaught_def split: option.splits)

lemma coordinate_requests_carry_key:
  "\<forall>(nm, url, keys) \<in> set coordinate_table.
     \<forall>q \<in> set (fst (coordinate_callTool K up nm args)).
       q = AxiosGet url (coordinate_params K args keys)
       \<and> map_of (coordinate_params K args keys) ''key'' = Some (Some (JStr K))"
  using coordinate_branch [of K up args]
  by (simp add: coordinate_table_def axios_try_def invalid_arguments_def coordinate_params_def)

text \<open>
  C7 says that the \<open>key\<close> parameter of every request comes from the environment
  and is never written in the source. The route server behaves the same in every
  environment, and the \<open>key\<close> of its requests is the literal \<open>apiKey\<close> of its
  handler.
\<close>

theorem route_key_is_literal:
  "route_process e up nm args = Inr (route_callTool up nm args)
   \<and> fst (route_callTool up ''walking_route''
       (Some (JObj [(''origin'', JStr ''116.4,39.9''), (''destination'', JStr ''116.5,40.0'')]))) =
     [Fetch ''https://restapi.amap.com/v3/direction/walking?origin=116.4,39.9&destination=116.5,40.0&key=ae4775b98c50d997cab4bcd6c769bf9b'']"
  by (simp add: route_process_def route_main_def route_callTool_def String_js_def
        fetch_json_def apiKey_def)

section \<open>Start-up without a credential, and shutdown\<close>

text \<open>The coordinate server started with \<open>AMAP_API_KEY\<close> unset or empty serves no
  call: the error of its module body is printed and the exit status is 1. On
  \<open>SIGINT\<close> it closes the server and exits with status 0.\<close>

lemma coordinate_startup_and_shutdown:
  "(e ''AMAP_API_KEY'' = None \<or> e ''AMAP_API_KEY'' = Some [] \<longrightarrow>
      coordinate_process e up nm args =
        Inl [Stderr (Error ''AMAP_API_KEY environment variable is required''), Exit 1])
   \<and> coordinate_SIGINT = [ServerClose, Exit 0]"
  by (auto simp add: coordinate_key_from_environment coordinate_SIGINT_def)

text \<open>
  C8 says that a process started without its credential ends with a non-zero
  status before it serves, and that a shutdown signal closes the transport and
  exits with status 0. The route server started in the empty environment serves
  every call, and it registers no \<open>SIGINT\<close> handler: the signal kills the process
  without closing the server.
\<close>

theorem route_starts_without_credential:
  "route_main Map.empty = Serving ()
   \<and> route_process Map.empty up nm args = Inr (route_callTool up nm args)
   \<and> route_SIGINT = [KilledBySignal]"
  by (simp add: route_process_def route_main_def route_SIGINT_def)

end
